theory Spec2Isabelle
  imports Complex_Main
begin

section \<open>History browsing: the window cursor of history.js\<close>

text \<open>
  The history view keeps four module-level variables (history.js, lines 5 to 8):
  \<^verbatim>\<open>currentWindowSize\<close> (initially 1000), \<^verbatim>\<open>currentPosition\<close>, \<^verbatim>\<open>totalDataCount\<close> and
  \<^verbatim>\<open>maxSliderPosition\<close> (initially 0). They hold JavaScript numbers that are sample counts
  and sample indices; they are modelled as unbounded integers.
\<close>

record cursor =
  currentWindowSize :: int
  currentPosition :: int
  totalDataCount :: int
  maxSliderPosition :: int

text \<open>
  \<^verbatim>\<open>reloadWindowedData\<close> (lines 310 to 332) fetches the window at
  \<^verbatim>\<open>(currentPosition, currentWindowSize)\<close>, and on a non-empty answer writes
  \<^verbatim>\<open>slider.max\<close>, \<^verbatim>\<open>slider.value\<close> and the chart. It assigns none of the four variables
  (a failed fetch is caught and logged), so on the cursor it is the identity.
\<close>

definition reloadWindowedData :: "cursor \<Rightarrow> cursor" where
  "reloadWindowedData s = s"

text \<open>
  \<^verbatim>\<open>changeWindowSize(newSize)\<close>, lines 258 to 276. The buttons of the page pass a
  number; \<^verbatim>\<open>-1\<close> stands for the whole dataset.
\<close>

definition changeWindowSize :: "int \<Rightarrow> cursor \<Rightarrow> cursor" where
  "changeWindowSize newSize s =
     reloadWindowedData
       (if newSize = - 1 then
          s\<lparr>currentWindowSize := totalDataCount s, currentPosition := 0\<rparr>
        else
          (let s1 = s\<lparr>currentWindowSize := newSize\<rparr> in
           if currentPosition s1 + currentWindowSize s1 > totalDataCount s1
           then s1\<lparr>currentPosition := max 0 (totalDataCount s1 - currentWindowSize s1)\<rparr>
           else s1))"

text \<open>
  \<^verbatim>\<open>navigateData(direction)\<close>, lines 279 to 301. The step is
  \<^verbatim>\<open>Math.floor(currentWindowSize / 2)\<close>; on integers, \<open>div\<close> rounds towards minus
  infinity as \<^verbatim>\<open>Math.floor\<close> does. The \<^verbatim>\<open>switch\<close> has no default case: any other
  string leaves the position as it is.
\<close>

definition navStep :: "cursor \<Rightarrow> int" where
  "navStep s = currentWindowSize s div 2"

definition navigateData :: "string \<Rightarrow> cursor \<Rightarrow> cursor" where
  "navigateData direction s =
     reloadWindowedData
       (if direction = ''start'' then s\<lparr>currentPosition := 0\<rparr>
        else if direction = ''prev'' then
          s\<lparr>currentPosition := max 0 (currentPosition s - navStep s)\<rparr>
        else if direction = ''next'' then
          s\<lparr>currentPosition := min (maxSliderPosition s) (currentPosition s + navStep s)\<rparr>
        else if direction = ''end'' then s\<lparr>currentPosition := maxSliderPosition s\<rparr>
        else s)"

text \<open>
  \<^verbatim>\<open>sliderNavigation(value)\<close>, lines 304 to 307: \<^verbatim>\<open>currentPosition = parseInt(value)\<close>.
  The argument is the value of the range input, a decimal numeral; \<open>p\<close> is the integer
  that \<^verbatim>\<open>parseInt\<close> reads from it.
\<close>

definition sliderNavigation :: "int \<Rightarrow> cursor \<Rightarrow> cursor" where
  "sliderNavigation p s = reloadWindowedData (s\<lparr>currentPosition := p\<rparr>)"

text \<open>
  The operations a user can apply to the cursor, and a run of them from left to right.
\<close>

datatype window_op = Resize int | Navigate string | SetPosition int

fun apply_window_op :: "window_op \<Rightarrow> cursor \<Rightarrow> cursor" where
  "apply_window_op (Resize newSize) s = changeWindowSize newSize s"
| "apply_window_op (Navigate direction) s = navigateData direction s"
| "apply_window_op (SetPosition p) s = sliderNavigation p s"

definition run_window_ops :: "window_op list \<Rightarrow> cursor \<Rightarrow> cursor" where
  "run_window_ops ops s = fold apply_window_op ops s"

text \<open>
  The guarantee of the window cursor: the position lies between 0 and the maximal
  position, the maximal position is \<open>max 0 (totalCount - windowSize)\<close> and at most the
  total count, and the window ends inside the dataset unless it is at least as long as
  the dataset, in which case it starts at 0.
\<close>

definition cursor_guarantee :: "cursor \<Rightarrow> bool" where
  "cursor_guarantee s \<longleftrightarrow>
     0 \<le> currentPosition s \<and> currentPosition s \<le> maxSliderPosition s
     \<and> maxSliderPosition s \<le> totalDataCount s
     \<and> maxSliderPosition s = max 0 (totalDataCount s - currentWindowSize s)
     \<and> (if currentWindowSize s \<ge> totalDataCount s then currentPosition s = 0
         else currentPosition s + currentWindowSize s \<le> totalDataCount s)"

text \<open>The part of the guarantee that does not mention the maximal position.\<close>

definition window_inside :: "cursor \<Rightarrow> bool" where
  "window_inside s \<longleftrightarrow>
     0 \<le> currentPosition s
     \<and> (if currentWindowSize s \<ge> totalDataCount s then currentPosition s = 0
         else currentPosition s + currentWindowSize s \<le> totalDataCount s)"

text \<open>
  Operations that keep to the range \<open>[0, m]\<close> of the slider: navigation, and a slider
  value between 0 and \<open>m\<close>.
\<close>

fun in_range_op :: "int \<Rightarrow> window_op \<Rightarrow> bool" where
  "in_range_op m (Resize newSize) = False"
| "in_range_op m (Navigate direction) = True"
| "in_range_op m (SetPosition p) = (0 \<le> p \<and> p \<le> m)"

text \<open>A dataset of 10000 samples seen through a window of 1000, at its start.\<close>

definition sample_cursor :: cursor where
  "sample_cursor = \<lparr>currentWindowSize = 1000, currentPosition = 0,
                     totalDataCount = 10000, maxSliderPosition = 9000\<rparr>"

section \<open>Live notifications: the NotificationManager of notifications.js\<close>

subsection \<open>What a notification shows\<close>

text \<open>
  A \<^verbatim>\<open>new_anomaly\<close> event is an object \<^verbatim>\<open>{ type, timestamp, data }\<close>. A numeric field of
  \<^verbatim>\<open>data\<close> is either a number or missing (\<^verbatim>\<open>undefined\<close> or \<^verbatim>\<open>null\<close>, which \<^verbatim>\<open>??\<close> treats
  alike): \<open>None\<close> is the missing field. Numbers are modelled as rationals and carried
  unchanged into the text that \<^verbatim>\<open>toFixed\<close> prints. \<^verbatim>\<open>data\<close> itself may be missing, and
  reading a property of it then throws a \<^verbatim>\<open>TypeError\<close>.
\<close>

datatype js_error = TypeError

record anomaly_payload =
  reconstruction_error :: "rat option"
  threshold :: "rat option"
  temperature :: "rat option"
  severity :: "string option"
  anomaly_type :: "string option"
  payload_timestamp :: "string option"

record anomaly_event =
  event_type :: string
  event_timestamp :: string
  event_data :: "anomaly_payload option"

text \<open>\<^verbatim>\<open>v ?? d\<close> on a field that is missing or present.\<close>

definition nullish :: "'v option \<Rightarrow> 'v \<Rightarrow> 'v" where
  "nullish v d = (case v of None \<Rightarrow> d | Some x \<Rightarrow> x)"

text \<open>\<^verbatim>\<open>v || d\<close> on a string field: missing and the empty string are falsy.\<close>

definition falsy_or :: "string option \<Rightarrow> string \<Rightarrow> string" where
  "falsy_or v d = (case v of None \<Rightarrow> d | Some x \<Rightarrow> if x = [] then d else x)"

text \<open>
  The pieces of text a notification shows are kept as terms, not as characters:
  \<open>ToFixed k x\<close> is \<^verbatim>\<open>x.toFixed(k)\<close>, \<open>ToFixedCelsius k x\<close> the same followed by the
  degree sign and C, \<open>LocaleTime t\<close> the time of day that
  \<^verbatim>\<open>new Date(t).toLocaleTimeString('it-IT')\<close> prints and \<open>UpperCase w\<close> is
  \<^verbatim>\<open>w.toUpperCase()\<close>.
\<close>

datatype piece =
    ToFixed nat rat
  | ToFixedCelsius nat rat
  | LocaleTime string
  | UpperCase string

datatype detail_label = Errore | Soglia | Ora | Temperatura | Severita

record detail =
  label :: detail_label
  shown :: piece
  critical :: bool

datatype notification_title = TitleECG | TitlePIEZO | TitleTemp bool

datatype notification_message = MessageECG | MessagePIEZO | MessageTemp bool piece

record notification_content =
  title :: notification_title
  message :: notification_message
  details :: "detail list"

text \<open>
  Lines 45 to 75 of \<^verbatim>\<open>showNotification\<close> together with the template of
  \<^verbatim>\<open>createNotificationElement\<close>. For a type other than \<^verbatim>\<open>'ecg'\<close>, \<^verbatim>\<open>'piezo'\<close> and
  \<^verbatim>\<open>'temp'\<close> no branch assigns \<^verbatim>\<open>details\<close>, and \<^verbatim>\<open>details.map\<close> in the template throws.
  \<open>TitleTemp h\<close> is the title of a temperature anomaly, \<open>h\<close> telling whether
  \<^verbatim>\<open>anomaly_type\<close> is \<^verbatim>\<open>'hypothermia'\<close>; \<open>MessageTemp c t\<close> is its message, \<open>c\<close> telling
  whether the severity is \<^verbatim>\<open>'severe'\<close>.
\<close>

definition notificationContent :: "anomaly_event \<Rightarrow> js_error + notification_content" where
  "notificationContent anomalyData =
     (if event_type anomalyData = ''ecg'' \<or> event_type anomalyData = ''piezo'' then
        (case event_data anomalyData of
           None \<Rightarrow> Inl TypeError
         | Some d \<Rightarrow>
             Inr \<lparr>title = (if event_type anomalyData = ''ecg'' then TitleECG else TitlePIEZO),
                  message = (if event_type anomalyData = ''ecg'' then MessageECG else MessagePIEZO),
                  details =
                    [\<lparr>label = Errore, shown = ToFixed 4 (nullish (reconstruction_error d) 0),
                      critical = False\<rparr>,
                     \<lparr>label = Soglia, shown = ToFixed 4 (nullish (threshold d) 0),
                      critical = False\<rparr>,
                     \<lparr>label = Ora,
                      shown = LocaleTime (falsy_or (payload_timestamp d) (event_timestamp anomalyData)),
                      critical = False\<rparr>]\<rparr>)
      else if event_type anomalyData = ''temp'' then
        (case event_data anomalyData of
           None \<Rightarrow> Inl TypeError
         | Some d \<Rightarrow>
             (let isCritical = (severity d = Some ''severe'');
                  temp = nullish (temperature d) 0
              in Inr \<lparr>title = TitleTemp (anomaly_type d = Some ''hypothermia''),
                      message = MessageTemp isCritical (ToFixedCelsius 1 temp),
                      details =
                        [\<lparr>label = Temperatura, shown = ToFixedCelsius 1 temp,
                          critical = isCritical\<rparr>,
                         \<lparr>label = Soglia, shown = ToFixedCelsius 1 (nullish (threshold d) 0),
                          critical = False\<rparr>,
                         \<lparr>label = Severita, shown = UpperCase (falsy_or (severity d) ''unknown''),
                          critical = False\<rparr>]\<rparr>))
      else Inl TypeError)"

subsection \<open>The buffer, the container and the counter\<close>

text \<open>
  The manager holds the array \<^verbatim>\<open>this.notifications\<close> and \<^verbatim>\<open>this.totalCount\<close>. Three parts
  of the page belong to its state as well: the notification elements among the children
  of \<^verbatim>\<open>#notificationsContainer\<close> (an element has a \<^verbatim>\<open>parentElement\<close> exactly while it
  is one of them), the \<^verbatim>\<open>setTimeout\<close> callbacks of \<^verbatim>\<open>removeNotification\<close> that have not run
  yet, and the element \<^verbatim>\<open>#notificationCounter\<close>, which does not exist before
  \<^verbatim>\<open>updateCounter\<close> creates it. Elements are values of any type \<open>'a\<close>; two elements are the
  same DOM node exactly when they are equal.
\<close>

datatype badge_text = Count nat | NinetyNinePlus

record badge =
  badge_text :: badge_text
  badge_title :: nat
  displayed :: bool

record 'a manager =
  notifications :: "'a list"
  totalCount :: nat
  container :: "'a list"
  timeouts :: "'a list"
  counter :: "badge option"

definition maxNotifications :: nat where
  "maxNotifications = 10"

definition initial_manager :: "'a manager" where
  "initial_manager = \<lparr>notifications = [], totalCount = 0, container = [],
                        timeouts = [], counter = None\<rparr>"

text \<open>\<^verbatim>\<open>appendChild\<close> moves a node that is already a child to the end.\<close>

definition appendChild :: "'a \<Rightarrow> 'a list \<Rightarrow> 'a list" where
  "appendChild e children = removeAll e children @ [e]"

text \<open>
  \<^verbatim>\<open>removeNotification\<close>, lines 166 to 181, up to the call of \<^verbatim>\<open>setTimeout\<close>: nothing
  happens for an element without parent; otherwise the callback is scheduled (and the
  element gets the style class \<^verbatim>\<open>closing\<close>, which is not modelled).
\<close>

definition removeNotification :: "'a \<Rightarrow> 'a manager \<Rightarrow> 'a manager" where
  "removeNotification notification s =
     (if notification \<notin> set (container s) then s
      else s\<lparr>timeouts := timeouts s @ [notification]\<rparr>)"

text \<open>
  The callback, run 300 ms later: it detaches the element and removes its first
  occurrence from the array (\<^verbatim>\<open>indexOf\<close>, \<^verbatim>\<open>splice\<close>). A callback that was never
  scheduled cannot run.
\<close>

definition removalTimeout :: "'a \<Rightarrow> 'a manager \<Rightarrow> 'a manager" where
  "removalTimeout notification s =
     (if notification \<in> set (timeouts s) then
        s\<lparr>timeouts := remove1 notification (timeouts s),
          container := removeAll notification (container s),
          notifications := remove1 notification (notifications s)\<rparr>
      else s)"

text \<open>
  \<^verbatim>\<open>updateCounter\<close>, lines 226 to 252. The counter element is created when it is absent
  and \<^verbatim>\<open>totalCount > 0\<close>; if it exists (now), its text, its title and its visibility are
  set from the length of the array.
\<close>

definition updateCounter :: "'a manager \<Rightarrow> 'a manager" where
  "updateCounter s =
     (let created = (counter s = None \<and> totalCount s > 0) in
      if counter s \<noteq> None \<or> created then
        s\<lparr>counter :=
            Some \<lparr>badge_text = (if length (notifications s) > 99 then NinetyNinePlus
                                 else Count (length (notifications s))),
                  badge_title = length (notifications s),
                  displayed = (\<not> length (notifications s) = 0)\<rparr>\<rparr>
      else s)"

text \<open>
  \<^verbatim>\<open>showNotification\<close>, lines 40 to 95. \<open>notification\<close> is the element that
  \<^verbatim>\<open>createNotificationElement\<close> returns. When the content cannot be built the exception
  leaves the function after \<^verbatim>\<open>totalCount\<close> has been incremented: the result is the error
  with the state at that point. The sound played at the end changes nothing here.
\<close>

definition showNotification ::
  "anomaly_event \<Rightarrow> 'a \<Rightarrow> 'a manager \<Rightarrow> (js_error \<times> 'a manager) + 'a manager" where
  "showNotification anomalyData notification s =
     (let s1 = s\<lparr>totalCount := totalCount s + 1\<rparr> in
      case notificationContent anomalyData of
        Inl err \<Rightarrow> Inl (err, s1)
      | Inr content \<Rightarrow>
          (let s2 = s1\<lparr>container := appendChild notification (container s1)\<rparr>;
               s3 = s2\<lparr>notifications := notifications s2 @ [notification]\<rparr>;
               s4 = (if length (notifications s3) > maxNotifications
                     then removeNotification (hd (notifications s3))
                            (s3\<lparr>notifications := tl (notifications s3)\<rparr>)
                     else s3)
           in Inr (updateCounter s4)))"

text \<open>\<^verbatim>\<open>clearAll\<close>, lines 254 to 262.\<close>

definition clearAll :: "'a manager \<Rightarrow> 'a manager" where
  "clearAll s =
     updateCounter ((fold removeNotification (notifications s) s)\<lparr>notifications := []\<rparr>)"

text \<open>
  What can happen to the manager: an anomaly arrives and an element is created for it,
  the user closes an element, the user clears all, or a scheduled callback runs.
\<close>

datatype 'a manager_event =
    Anomaly anomaly_event 'a
  | Close 'a
  | ClearAll
  | Timeout 'a

fun state_after :: "(js_error \<times> 'a manager) + 'a manager \<Rightarrow> 'a manager" where
  "state_after (Inl (err, s)) = s"
| "state_after (Inr s) = s"

fun manager_step :: "'a manager_event \<Rightarrow> 'a manager \<Rightarrow> 'a manager" where
  "manager_step (Anomaly anomalyData notification) s =
     state_after (showNotification anomalyData notification s)"
| "manager_step (Close notification) s = removeNotification notification s"
| "manager_step ClearAll s = clearAll s"
| "manager_step (Timeout notification) s = removalTimeout notification s"

definition run_events :: "'a manager_event list \<Rightarrow> 'a manager \<Rightarrow> 'a manager" where
  "run_events evs s = fold manager_step evs s"

text \<open>The elements that a run of events pushes: those of the anomalies that render.\<close>

fun pushed :: "'a manager_event list \<Rightarrow> 'a list" where
  "pushed [] = []"
| "pushed (Anomaly anomalyData notification # evs) =
     (if isl (notificationContent anomalyData) then pushed evs
      else notification # pushed evs)"
| "pushed (Close notification # evs) = pushed evs"
| "pushed (ClearAll # evs) = pushed evs"
| "pushed (Timeout notification # evs) = pushed evs"

text \<open>Runs in which the user removes nothing: anomalies and callbacks only.\<close>

fun push_or_timeout :: "'a manager_event \<Rightarrow> bool" where
  "push_or_timeout (Anomaly anomalyData notification) = True"
| "push_or_timeout (Close notification) = False"
| "push_or_timeout ClearAll = False"
| "push_or_timeout (Timeout notification) = True"

definition most_recent :: "nat \<Rightarrow> 'a list \<Rightarrow> 'a list" where
  "most_recent k xs = drop (length xs - k) xs"

text \<open>
  A state in which no element of the array waits for its removal callback, the array
  has no element twice and holds at most \<open>maxNotifications\<close> elements.
\<close>

definition settled :: "'a manager \<Rightarrow> bool" where
  "settled s \<longleftrightarrow>
     distinct (notifications s)
     \<and> set (timeouts s) \<inter> set (notifications s) = {}
     \<and> length (notifications s) \<le> maxNotifications"

text \<open>Sample events: anomalies whose numeric fields are all missing.\<close>

definition ecg_event :: anomaly_event where
  "ecg_event = \<lparr>event_type = ''ecg'', event_timestamp = ''2025-01-01T10:00:00'',
     event_data = Some \<lparr>reconstruction_error = None, threshold = None, temperature = None,
       severity = None, anomaly_type = None, payload_timestamp = None\<rparr>\<rparr>"

definition temp_event :: anomaly_event where
  "temp_event = \<lparr>event_type = ''temp'', event_timestamp = ''2025-01-01T10:00:00'',
     event_data = Some \<lparr>reconstruction_error = None, threshold = None, temperature = None,
       severity = Some ''severe'', anomaly_type = Some ''hypothermia'',
       payload_timestamp = None\<rparr>\<rparr>"

text \<open>
  Two events outside the three known kinds of anomaly: one of an unknown type whose
  payload lacks every numeric field, and one without payload.
\<close>

definition unknown_event :: anomaly_event where
  "unknown_event = \<lparr>event_type = ''spo2'', event_timestamp = ''2025-01-01T10:00:00'',
     event_data = Some \<lparr>reconstruction_error = None, threshold = None, temperature = None,
       severity = None, anomaly_type = None, payload_timestamp = None\<rparr>\<rparr>"

definition bare_event :: anomaly_event where
  "bare_event = \<lparr>event_type = ''ecg'', event_timestamp = ''2025-01-01T10:00:00'',
     event_data = None\<rparr>"

definition ten_anomalies :: "nat manager_event list" where
  "ten_anomalies =
     [Anomaly ecg_event 1, Anomaly ecg_event 2, Anomaly ecg_event 3, Anomaly ecg_event 4,
      Anomaly ecg_event 5, Anomaly ecg_event 6, Anomaly ecg_event 7, Anomaly ecg_event 8,
      Anomaly ecg_event 9, Anomaly ecg_event 10]"

definition eleven_anomalies :: "nat manager_event list" where
  "eleven_anomalies = ten_anomalies @ [Anomaly ecg_event 11, Timeout 1]"

definition close_trace :: "nat manager_event list" where
  "close_trace = [Anomaly ecg_event 1, Anomaly ecg_event 2, Close 1, Timeout 1]"

subsection \<open>The anomaly cards of the list view\<close>

text \<open>
  \<^verbatim>\<open>createAnomalyCard\<close> (the script \<^verbatim>\<open>src/unnamed/part_000\<close>, lines 208 to 324) draws one
  stored anomaly: the fields of an anomaly payload, the
  \<^verbatim>\<open>type\<close> that \<^verbatim>\<open>renderAnomaliesList\<close> adds (\<^verbatim>\<open>'ECG'\<close>, \<^verbatim>\<open>'PIEZO'\<close> or \<^verbatim>\<open>'TEMP'\<close>) and
  \<^verbatim>\<open>duration_readings\<close>. The header of the card and its small chart read none of the
  numeric fields and are left out; the metrics are kept.
\<close>

record anomaly_record = anomaly_payload +
  anomaly_kind :: string
  duration_readings :: "rat option"

datatype metric_label =
  Tipo | MetricTemperatura | MetricSoglia | Durata | MetricSeverita
  | ErroreRicostruzione | Superamento

text \<open>
  \<open>Minutes m\<close> is the number \<open>m\<close> followed by the word for minutes, \<open>Translated w\<close> is
  \<^verbatim>\<open>translateSeverity(w)\<close> and \<open>Percent v\<close> is \<open>v\<close> followed by the percent sign.
\<close>

datatype metric_value =
    Shown piece
  | Literal string
  | Minutes rat
  | Translated string
  | Percent metric_value

record anomaly_card =
  cardClass :: string
  metrics :: "(metric_label \<times> metric_value) list"

definition createAnomalyCard :: "anomaly_record \<Rightarrow> anomaly_card" where
  "createAnomalyCard anomaly =
     \<lparr>cardClass = (if anomaly_kind anomaly = ''ECG'' then ''ecg''
                   else if anomaly_kind anomaly = ''PIEZO'' then ''piezo'' else ''temp''),
      metrics =
        (if anomaly_kind anomaly = ''TEMP'' then
           (let temperature = nullish (temperature anomaly) 0;
                threshold = nullish (threshold anomaly) 0;
                severity = falsy_or (severity anomaly) ''unknown'';
                anomalyTypeVal = falsy_or (anomaly_type anomaly) ''unknown'';
                durationReadings = nullish (duration_readings anomaly) 0;
                anomalyTypeLabel =
                  (if anomalyTypeVal = ''hypothermia'' then ''Ipotermia''
                   else if anomalyTypeVal = ''hyperthermia'' then ''Ipertermia''
                   else anomalyTypeVal)
            in [(Tipo, Literal anomalyTypeLabel),
                (MetricTemperatura, Shown (ToFixedCelsius 1 temperature)),
                (MetricSoglia, Shown (ToFixedCelsius 1 threshold)),
                (Durata, Minutes (durationReadings * 2)),
                (MetricSeverita, Translated severity)])
         else
           (let reconstructionError = nullish (reconstruction_error anomaly) 0;
                threshold = nullish (threshold anomaly) 1;
                errorPercent =
                  (if threshold > 0 then Shown (ToFixed 1 (reconstructionError / threshold * 100))
                   else Literal ''0'')
            in [(ErroreRicostruzione, Shown (ToFixed 4 reconstructionError)),
                (MetricSoglia, Shown (ToFixed 4 threshold)),
                (Superamento, Percent errorPercent)]))\<rparr>"

text \<open>The value shown for a numeric field: the field, or 0 (or 1) when it is missing.\<close>

definition or_zero :: "rat option \<Rightarrow> rat" where
  "or_zero v = (case v of None \<Rightarrow> 0 | Some x \<Rightarrow> x)"

definition or_one :: "rat option \<Rightarrow> rat" where
  "or_one v = (case v of None \<Rightarrow> 1 | Some x \<Rightarrow> x)"

definition bare_record :: "string \<Rightarrow> anomaly_record" where
  "bare_record kind = \<lparr>reconstruction_error = None, threshold = None, temperature = None,
       severity = None, anomaly_type = None, payload_timestamp = None,
       anomaly_kind = kind, duration_readings = None\<rparr>"

section \<open>The realtime dashboard: temperature history and counters\<close>

text \<open>
  The realtime dashboard (the script \<^verbatim>\<open>src/unnamed/part_002\<close>) keeps its state in
  module-level variables, lines 1 to 24. A number is a rational here, or \<open>NaN\<close>; the source computes in
  binary floating point, so a stored value can differ from the rational in its last
  digits. The statements below are about how many values are stored and shown, not
  about the values.
\<close>

datatype jsnum = Num rat | NaN

text \<open>
  The first raw value of a temperature message is a number or an array, of which the
  source takes the first element (\<^verbatim>\<open>undefined\<close> for an empty array, which \<^verbatim>\<open>/ 100\<close> turns
  into \<open>NaN\<close>). \<^verbatim>\<open>data.y\<close> is the list of channels and may be missing.
\<close>

datatype reading = Plain rat | Wrapped "rat list"

record chart_data =
  chart_y :: "reading list list option"

text \<open>
  The text of \<^verbatim>\<open>#tempValue\<close> and of \<^verbatim>\<open>frozenStats.temp\<close>: two dashes, or
  \<^verbatim>\<open>x.toFixed(1)\<close>.
\<close>

datatype temp_text = Dashes | Fixed1 jsnum

record frozen_stats =
  frozen_ecg :: int
  frozen_adc :: int
  frozen_packets :: int
  frozen_temp :: temp_text

record temperature_history =
  hist_values :: "jsnum list"
  hist_times :: "int list"

text \<open>
  A status snapshot: \<^verbatim>\<open>data.stats.TEMP.current_temp\<close> (a number of hundredths of a degree
  or \<^verbatim>\<open>null\<close>), \<^verbatim>\<open>data.stats.ECG.samples\<close>, \<^verbatim>\<open>data.stats.ADC.samples\<close> and
  \<^verbatim>\<open>data.packet_count\<close>.
\<close>

record status_snapshot =
  current_temp :: "rat option"
  ecg_samples :: int
  adc_samples :: int
  packet_count :: int

text \<open>
  The variables \<^verbatim>\<open>shouldUpdateCounters\<close>, \<^verbatim>\<open>frozenStats\<close>, \<^verbatim>\<open>temperatureHistory\<close> and
  \<^verbatim>\<open>lastTemperature\<close>, the text of \<^verbatim>\<open>#tempValue\<close>, and the series \<open>(y, x)\<close> last handed to
  \<^verbatim>\<open>Plotly\<close> for \<^verbatim>\<open>tempChart\<close>.
\<close>

record realtime =
  shouldUpdateCounters :: bool
  frozenStats :: frozen_stats
  temperatureHistory :: temperature_history
  lastTemperature :: "rat option"
  tempValue :: temp_text
  tempChart :: "jsnum list \<times> int list"

definition MAX_TEMP_DISPLAY :: nat where
  "MAX_TEMP_DISPLAY = 1200"

text \<open>
  \<^verbatim>\<open>xs.slice(-n)\<close>: the last \<open>n\<close> elements, all of them when there are fewer.
\<close>

definition slice_from_end :: "nat \<Rightarrow> 'a list \<Rightarrow> 'a list" where
  "slice_from_end n xs = drop (length xs - n) xs"

definition initial_realtime :: realtime where
  "initial_realtime =
     \<lparr>shouldUpdateCounters = False,
      frozenStats = \<lparr>frozen_ecg = 0, frozen_adc = 0, frozen_packets = 0, frozen_temp = Dashes\<rparr>,
      temperatureHistory = \<lparr>hist_values = [], hist_times = []\<rparr>,
      lastTemperature = None,
      tempValue = Dashes,
      tempChart = ([], [])\<rparr>"

text \<open>
  \<^verbatim>\<open>rawValue = tempData[0]; if (Array.isArray(rawValue)) rawValue = rawValue[0]\<close>, and
  the division by 100.
\<close>

definition firstRawValue :: "reading \<Rightarrow> jsnum" where
  "firstRawValue rawValue =
     (case rawValue of
        Plain v \<Rightarrow> Num v
      | Wrapped [] \<Rightarrow> NaN
      | Wrapped (v # vs) \<Rightarrow> Num v)"

definition divide100 :: "jsnum \<Rightarrow> jsnum" where
  "divide100 x = (case x of Num v \<Rightarrow> Num (v / 100) | NaN \<Rightarrow> NaN)"

text \<open>
  The block that \<^verbatim>\<open>updateChart\<close> (lines 511 to 528) and \<^verbatim>\<open>updateStatistics\<close> (lines 584 to
  591) both contain: the value is pushed onto \<^verbatim>\<open>temperatureHistory.values\<close>, the minutes
  from the start, \<^verbatim>\<open>(values.length - 1) * 2\<close>, onto \<^verbatim>\<open>temperatureHistory.times\<close>, and the
  last \<^verbatim>\<open>MAX_TEMP_DISPLAY\<close> entries of both go to the chart. Nothing is removed from the
  history.
\<close>

definition pushTemperature :: "jsnum \<Rightarrow> realtime \<Rightarrow> realtime" where
  "pushTemperature v s =
     (let vs = hist_values (temperatureHistory s) @ [v];
          minutesFromStart = (int (length vs) - 1) * 2;
          ts = hist_times (temperatureHistory s) @ [minutesFromStart];
          displayValues = slice_from_end MAX_TEMP_DISPLAY vs;
          displayTimes = slice_from_end MAX_TEMP_DISPLAY ts
      in s\<lparr>temperatureHistory := \<lparr>hist_values = vs, hist_times = ts\<rparr>,
           tempChart := (displayValues, displayTimes)\<rparr>)"

text \<open>
  \<^verbatim>\<open>updateChart(signal, data)\<close>, lines 436 to 567. The branches for \<^verbatim>\<open>'ECG'\<close> and \<^verbatim>\<open>'ADC'\<close>
  draw their own charts and change none of the variables above.
\<close>

definition updateChart :: "string \<Rightarrow> chart_data option \<Rightarrow> realtime \<Rightarrow> realtime" where
  "updateChart signal data s =
     (case data of
        None \<Rightarrow> s
      | Some d \<Rightarrow>
          (case chart_y d of
             None \<Rightarrow> s
           | Some [] \<Rightarrow> s
           | Some (tempData # channels) \<Rightarrow>
               if signal = ''ECG'' then s
               else if signal = ''ADC'' then s
               else if signal = ''TEMP'' then
                 (case tempData of
                    [] \<Rightarrow> s
                  | rawValue # rest \<Rightarrow>
                      (let tempInCelsius = divide100 (firstRawValue rawValue)
                       in (pushTemperature tempInCelsius s)\<lparr>tempValue := Fixed1 tempInCelsius\<rparr>))
               else s))"

text \<open>
  \<^verbatim>\<open>updateStatistics(data)\<close>, lines 570 to 635.
\<close>

definition updateStatistics :: "status_snapshot \<Rightarrow> realtime \<Rightarrow> realtime" where
  "updateStatistics data s =
     (if \<not> shouldUpdateCounters s then s
      else
        (let s1 =
           (case current_temp data of
              None \<Rightarrow> s
            | Some c \<Rightarrow>
                (let tempC = c / 100;
                     s' = s\<lparr>tempValue := Fixed1 (Num tempC),
                            frozenStats := (frozenStats s)\<lparr>frozen_temp := Fixed1 (Num tempC)\<rparr>\<rparr>
                 in if (case lastTemperature s' of
                          None \<Rightarrow> True
                        | Some l \<Rightarrow> \<bar>tempC - l\<bar> > 1 / 100)
                    then pushTemperature (Num tempC) (s'\<lparr>lastTemperature := Some tempC\<rparr>)
                    else s'))
         in s1\<lparr>frozenStats := (frozenStats s1)
                  \<lparr>frozen_ecg := ecg_samples data, frozen_adc := adc_samples data,
                   frozen_packets := packet_count data\<rparr>\<rparr>))"

text \<open>
  \<^verbatim>\<open>performReset\<close>, lines 793 to 845, on the variables above.
\<close>

definition performReset :: "realtime \<Rightarrow> realtime" where
  "performReset s =
     s\<lparr>temperatureHistory := \<lparr>hist_values = [], hist_times = []\<rparr>,
       lastTemperature := None,
       frozenStats := \<lparr>frozen_ecg = 0, frozen_adc = 0, frozen_packets = 0, frozen_temp = Dashes\<rparr>,
       tempValue := Dashes,
       tempChart := ([], [])\<rparr>"

text \<open>
  The events that reach these variables: a \<^verbatim>\<open>data_update\<close> message (a \<^verbatim>\<open>'TEMP'\<close> message
  is always drawn; the others change nothing here), a \<^verbatim>\<open>status_update\<close> message, a
  change of the acquisition state (the \<^verbatim>\<open>acquisition_status\<close> message and the start and
  stop buttons set \<^verbatim>\<open>shouldUpdateCounters\<close>), the status poll every 5 seconds, which
  calls \<^verbatim>\<open>updateStatistics\<close> and then sets the flag, and a reset.
\<close>

datatype realtime_event =
    DataUpdate string "chart_data option"
  | StatusUpdate status_snapshot
  | AcquisitionStatus bool
  | Poll status_snapshot bool
  | Reset

fun realtime_step :: "realtime_event \<Rightarrow> realtime \<Rightarrow> realtime" where
  "realtime_step (DataUpdate signal data) s = updateChart signal data s"
| "realtime_step (StatusUpdate data) s = updateStatistics data s"
| "realtime_step (AcquisitionStatus acquiring) s = s\<lparr>shouldUpdateCounters := acquiring\<rparr>"
| "realtime_step (Poll data is_acquiring) s =
     (updateStatistics data s)\<lparr>shouldUpdateCounters := is_acquiring\<rparr>"
| "realtime_step Reset s = performReset s"

definition run_realtime :: "realtime_event list \<Rightarrow> realtime \<Rightarrow> realtime" where
  "run_realtime evs s = fold realtime_step evs s"

text \<open>
  The chart shows the last \<^verbatim>\<open>MAX_TEMP_DISPLAY\<close> entries of the stored history.
\<close>

definition chart_in_sync :: "realtime \<Rightarrow> bool" where
  "chart_in_sync s \<longleftrightarrow>
     tempChart s = (slice_from_end MAX_TEMP_DISPLAY (hist_values (temperatureHistory s)),
                    slice_from_end MAX_TEMP_DISPLAY (hist_times (temperatureHistory s)))"

text \<open>
  A temperature message with the raw value 3650, that is 36.5 degrees, and a status
  snapshot.
\<close>

definition temp_sample :: realtime_event where
  "temp_sample = DataUpdate ''TEMP'' (Some \<lparr>chart_y = Some [[Plain 3650]]\<rparr>)"

definition warm_snapshot :: status_snapshot where
  "warm_snapshot = \<lparr>current_temp = Some 3700, ecg_samples = 5, adc_samples = 6,
                     packet_count = 7\<rparr>"

section \<open>Time bounds of a history window\<close>

text \<open>
  The part of \<^verbatim>\<open>renderHistoricalChart\<close> (history.js, lines 342 to 370) that computes
  \<^verbatim>\<open>firstSampleMs\<close> and \<^verbatim>\<open>lastSampleMs\<close> from the signal, the cursor, the number of samples
  received and the start and end of the session in milliseconds. Times and ratios are
  rationals. A division by a total count of 0 gives no time (\<open>None\<close>), and so does a
  signal without sample rate.
\<close>

definition windowTimeBounds ::
  "string \<Rightarrow> cursor \<Rightarrow> nat \<Rightarrow> rat \<Rightarrow> rat \<Rightarrow> (rat \<times> rat) option" where
  "windowTimeBounds signal s numSamples sessionStartMs sessionEndMs =
     (if signal = ''TEMP'' then
        (if totalDataCount s = 0 then None
         else
           (let sessionDurationMs = sessionEndMs - sessionStartMs;
                progressRatio = of_int (currentPosition s) / of_int (totalDataCount s);
                windowRatio = of_nat numSamples / of_int (totalDataCount s);
                firstSampleMs = sessionStartMs + (sessionDurationMs * progressRatio);
                lastSampleMs = sessionStartMs + (sessionDurationMs * (progressRatio + windowRatio))
            in Some (firstSampleMs, lastSampleMs)))
      else if signal = ''ECG'' \<or> signal = ''ADC'' then
        (let sampleRate = 250;
             firstSampleMs = sessionStartMs + (of_int (currentPosition s) / sampleRate) * 1000;
             lastSampleMs = sessionStartMs
               + ((of_int (currentPosition s) + of_nat numSamples - 1) / sampleRate) * 1000
         in Some (firstSampleMs, lastSampleMs))
      else None)"

section \<open>Navigation and resizing\<close>

lemma navStep_floor: "navStep s = \<lfloor>real_of_int (currentWindowSize s) / 2\<rfloor>"
proof -
  have "\<lfloor>real_of_int (currentWindowSize s) / real_of_int 2\<rfloor> = currentWindowSize s div 2"
    by (rule floor_divide_of_int_eq)
  then show ?thesis by (simp add: navStep_def)
qed

text \<open>
  Claim C3. \<^verbatim>\<open>navigateData\<close> steps by \<open>floor (windowSize / 2)\<close>; \<^verbatim>\<open>'start'\<close> sets the
  position to 0, \<^verbatim>\<open>'end'\<close> to the maximal position, \<^verbatim>\<open>'prev'\<close> to
  \<open>max 0 (position - step)\<close> and \<^verbatim>\<open>'next'\<close> to \<open>min maxPosition (position + step)\<close>. With
  10000 samples, a window of 1000, position 9500 and maximal position 9000, \<^verbatim>\<open>'next'\<close>
  yields position 9000.
\<close>

theorem navigateData_positions:
  "navStep s = \<lfloor>real_of_int (currentWindowSize s) / 2\<rfloor>
   \<and> currentPosition (navigateData ''start'' s) = 0
   \<and> currentPosition (navigateData ''end'' s) = maxSliderPosition s
   \<and> currentPosition (navigateData ''prev'' s) = max 0 (currentPosition s - navStep s)
   \<and> currentPosition (navigateData ''next'' s)
       = min (maxSliderPosition s) (currentPosition s + navStep s)
   \<and> currentPosition (navigateData ''next''
        \<lparr>currentWindowSize = 1000, currentPosition = 9500,
         totalDataCount = 10000, maxSliderPosition = 9000\<rparr>) = 9000"
  using navStep_floor [of s]
  by (simp add: navigateData_def reloadWindowedData_def navStep_def)

text \<open>
  Claim C4. \<^verbatim>\<open>changeWindowSize\<close> with the value \<open>-1\<close> sets the window size to the
  total count and the position to 0 (with 5000 samples: window size 5000, position 0).
  With any other size it stores that size, and moves the position to
  \<open>max 0 (totalCount - windowSize)\<close> if \<open>position + windowSize > totalCount\<close>; otherwise the
  position stays.
\<close>

theorem changeWindowSize_spec:
  "currentWindowSize (changeWindowSize (- 1) s) = totalDataCount s
   \<and> currentPosition (changeWindowSize (- 1) s) = 0
   \<and> (newSize \<noteq> - 1 \<longrightarrow>
        currentWindowSize (changeWindowSize newSize s) = newSize
        \<and> (currentPosition s + newSize > totalDataCount s \<longrightarrow>
             currentPosition (changeWindowSize newSize s) = max 0 (totalDataCount s - newSize))
        \<and> (\<not> currentPosition s + newSize > totalDataCount s \<longrightarrow>
             currentPosition (changeWindowSize newSize s) = currentPosition s))
   \<and> (totalDataCount s = 5000 \<longrightarrow>
        currentWindowSize (changeWindowSize (- 1) s) = 5000
        \<and> currentPosition (changeWindowSize (- 1) s) = 0)"
  by (simp add: changeWindowSize_def reloadWindowedData_def Let_def)

theorem changeWindowSize_spec_witness:
  "currentWindowSize (changeWindowSize (- 1)
      \<lparr>currentWindowSize = 1000, currentPosition = 4500,
       totalDataCount = 5000, maxSliderPosition = 4000\<rparr>) = 5000
   \<and> currentPosition (changeWindowSize (- 1)
      \<lparr>currentWindowSize = 1000, currentPosition = 4500,
       totalDataCount = 5000, maxSliderPosition = 4000\<rparr>) = 0
   \<and> currentWindowSize (changeWindowSize 2000
      \<lparr>currentWindowSize = 1000, currentPosition = 4500,
       totalDataCount = 5000, maxSliderPosition = 4000\<rparr>) = 2000
   \<and> currentPosition (changeWindowSize 2000
      \<lparr>currentWindowSize = 1000, currentPosition = 4500,
       totalDataCount = 5000, maxSliderPosition = 4000\<rparr>) = 3000"
  using changeWindowSize_spec [of
      "\<lparr>currentWindowSize = 1000, currentPosition = 4500,
        totalDataCount = 5000, maxSliderPosition = 4000\<rparr>" 2000]
  by simp

section \<open>The guarantee of the window cursor\<close>

lemma navigateData_fields:
  "currentWindowSize (navigateData d s) = currentWindowSize s"
  "totalDataCount (navigateData d s) = totalDataCount s"
  "maxSliderPosition (navigateData d s) = maxSliderPosition s"
  by (simp_all add: navigateData_def reloadWindowedData_def)

lemma navigateData_guarantee:
  assumes "cursor_guarantee s" and "0 < currentWindowSize s"
  shows "cursor_guarantee (navigateData d s)"
proof -
  have step: "0 \<le> navStep s" using assms(2) by (simp add: navStep_def)
  show ?thesis
    using assms step
    by (auto simp add: cursor_guarantee_def navigateData_def reloadWindowedData_def
          split: if_splits)
qed

lemma sliderNavigation_guarantee:
  assumes "cursor_guarantee s" and "0 \<le> p" and "p \<le> maxSliderPosition s"
  shows "cursor_guarantee (sliderNavigation p s)"
  using assms
  by (auto simp add: cursor_guarantee_def sliderNavigation_def reloadWindowedData_def
        split: if_splits)

lemma in_range_step:
  assumes "cursor_guarantee s" and "0 < currentWindowSize s"
    and "in_range_op (maxSliderPosition s) x"
  shows "cursor_guarantee (apply_window_op x s)
         \<and> 0 < currentWindowSize (apply_window_op x s)
         \<and> maxSliderPosition (apply_window_op x s) = maxSliderPosition s"
proof (cases x)
  case (Resize n)
  with assms(3) show ?thesis by simp
next
  case (Navigate d)
  with assms navigateData_guarantee [of s d] show ?thesis
    by (simp add: navigateData_fields)
next
  case (SetPosition p)
  with assms sliderNavigation_guarantee [of s p] show ?thesis
    by (simp add: sliderNavigation_def reloadWindowedData_def)
qed

lemma in_range_run:
  "cursor_guarantee s \<Longrightarrow> 0 < currentWindowSize s \<Longrightarrow>
   list_all (in_range_op (maxSliderPosition s)) ops \<Longrightarrow>
   cursor_guarantee (run_window_ops ops s)"
proof (induction ops arbitrary: s)
  case Nil
  then show ?case by (simp add: run_window_ops_def)
next
  case (Cons x xs)
  from Cons.prems have x: "in_range_op (maxSliderPosition s) x"
    and xs: "list_all (in_range_op (maxSliderPosition s)) xs" by simp_all
  from in_range_step [OF Cons.prems(1,2) x]
  have g: "cursor_guarantee (apply_window_op x s)"
    and w: "0 < currentWindowSize (apply_window_op x s)"
    and m: "maxSliderPosition (apply_window_op x s) = maxSliderPosition s" by simp_all
  from Cons.IH [OF g w] xs m
  show ?case by (simp add: run_window_ops_def)
qed

lemma changeWindowSize_inside:
  "0 \<le> currentPosition s \<Longrightarrow> window_inside (changeWindowSize newSize s)"
  by (auto simp add: window_inside_def changeWindowSize_def reloadWindowedData_def Let_def)

lemma list_all_take: "list_all P xs \<Longrightarrow> list_all P (take k xs)"
  by (auto simp add: list_all_iff dest: in_set_takeD)

text \<open>
  Claim C1, as the code has it. From a state that satisfies the guarantee, with a
  positive window size, every run of navigation steps and of slider values between 0 and
  the maximal position satisfies the guarantee after each operation. A resize applied to
  a state with a non-negative position gives a non-negative position and a window that
  ends inside the dataset, or starts at 0 when it is at least as long as the dataset;
  nothing is said about the maximal position after a resize.
\<close>

theorem window_invariant_amended:
  "(cursor_guarantee s \<and> 0 < currentWindowSize s
      \<and> list_all (in_range_op (maxSliderPosition s)) ops
      \<longrightarrow> (\<forall>k \<le> length ops. cursor_guarantee (run_window_ops (take k ops) s)))
   \<and> (0 \<le> currentPosition s \<longrightarrow> window_inside (changeWindowSize newSize s))"
  using in_range_run [of s] list_all_take [of _ ops] changeWindowSize_inside [of s newSize]
  by blast

text \<open>
  Claim C1 as stated fails: from the sample cursor, which satisfies the guarantee, a
  slider value of 9500 is stored as it is, above the maximal position 9000; and a resize
  to 5000 leaves \<^verbatim>\<open>maxSliderPosition\<close> at 9000 instead of 5000, so that \<^verbatim>\<open>'end'\<close> then
  moves the window to 9000, beyond the end of the dataset.
\<close>

theorem window_invariant_counterexample:
  "0 \<le> totalDataCount sample_cursor \<and> 0 < currentWindowSize sample_cursor
   \<and> cursor_guarantee sample_cursor
   \<and> \<not> cursor_guarantee (run_window_ops [SetPosition 9500] sample_cursor)
   \<and> \<not> cursor_guarantee (run_window_ops [Resize 5000] sample_cursor)
   \<and> \<not> cursor_guarantee (run_window_ops [Resize 5000, Navigate ''end''] sample_cursor)"
  by (simp add: sample_cursor_def cursor_guarantee_def run_window_ops_def
        sliderNavigation_def changeWindowSize_def navigateData_def reloadWindowedData_def)

theorem window_invariant_amended_witness:
  "cursor_guarantee (run_window_ops [Navigate ''next'', SetPosition 8900, Navigate ''next'',
       Navigate ''prev'', Navigate ''end'', Navigate ''start''] sample_cursor)
   \<and> window_inside (changeWindowSize 5000 (sample_cursor\<lparr>currentPosition := 9000\<rparr>))"
proof -
  let ?ops = "[Navigate ''next'', SetPosition 8900, Navigate ''next'',
       Navigate ''prev'', Navigate ''end'', Navigate ''start'']"
  have a: "cursor_guarantee sample_cursor \<and> 0 < currentWindowSize sample_cursor
      \<and> list_all (in_range_op (maxSliderPosition sample_cursor)) ?ops"
    by (simp add: sample_cursor_def cursor_guarantee_def)
  have b: "0 \<le> currentPosition (sample_cursor\<lparr>currentPosition := 9000\<rparr>)" by simp
  from window_invariant_amended [of sample_cursor ?ops 5000] a
  have "\<forall>k \<le> length ?ops. cursor_guarantee (run_window_ops (take k ?ops) sample_cursor)"
    by blast
  then have "cursor_guarantee (run_window_ops (take (length ?ops) ?ops) sample_cursor)"
    by blast
  moreover have "window_inside (changeWindowSize 5000 (sample_cursor\<lparr>currentPosition := 9000\<rparr>))"
    using window_invariant_amended [of "sample_cursor\<lparr>currentPosition := 9000\<rparr>" "[]" 5000] b
    by blast
  ultimately show ?thesis by simp
qed

text \<open>
  Claim C2, as the code has it. \<^verbatim>\<open>sliderNavigation\<close> stores the value it is given as the
  position, unchanged, and touches nothing else. The stored position lies in
  \<open>[0, maxPosition]\<close> exactly when the value does, and then it is the clamped value.
\<close>

theorem sliderNavigation_stores_value:
  "currentPosition (sliderNavigation p s) = p
   \<and> currentWindowSize (sliderNavigation p s) = currentWindowSize s
   \<and> totalDataCount (sliderNavigation p s) = totalDataCount s
   \<and> maxSliderPosition (sliderNavigation p s) = maxSliderPosition s
   \<and> ((0 \<le> currentPosition (sliderNavigation p s)
        \<and> currentPosition (sliderNavigation p s) \<le> maxSliderPosition (sliderNavigation p s))
       \<longleftrightarrow> (0 \<le> p \<and> p \<le> maxSliderPosition s))
   \<and> (0 \<le> p \<and> p \<le> maxSliderPosition s \<longrightarrow>
        currentPosition (sliderNavigation p s) = max 0 (min (maxSliderPosition s) p))"
  by (simp add: sliderNavigation_def reloadWindowedData_def)

theorem sliderNavigation_stores_value_witness:
  "currentPosition (sliderNavigation 4000 sample_cursor) = 4000
   \<and> max 0 (min (maxSliderPosition sample_cursor) 4000) = (4000::int)"
  using sliderNavigation_stores_value [of 4000 sample_cursor]
  by (simp add: sample_cursor_def)

text \<open>
  Claim C2 as stated fails: the value 9500 is above the maximal position 9000 and is
  stored as 9500, and the value \<open>-5\<close> is stored as \<open>-5\<close>.
\<close>

theorem sliderNavigation_counterexample:
  "maxSliderPosition sample_cursor < 9500
   \<and> currentPosition (sliderNavigation 9500 sample_cursor)
       \<noteq> maxSliderPosition (sliderNavigation 9500 sample_cursor)
   \<and> currentPosition (sliderNavigation (- 5) sample_cursor) \<noteq> 0"
  by (simp add: sliderNavigation_def reloadWindowedData_def sample_cursor_def)

section \<open>The notification buffer\<close>

lemma most_recent_append:
  "most_recent k (most_recent k xs @ ys) = most_recent k (xs @ ys)"
  by (cases "length xs \<le> k") (auto simp add: most_recent_def add.commute)

lemma most_recent_short: "length xs \<le> k \<Longrightarrow> most_recent k xs = xs"
  by (simp add: most_recent_def)

lemma updateCounter_fields:
  "notifications (updateCounter s) = notifications s"
  "timeouts (updateCounter s) = timeouts s"
  "container (updateCounter s) = container s"
  "totalCount (updateCounter s) = totalCount s"
  by (simp_all add: updateCounter_def Let_def)

lemma removeNotification_fields:
  "notifications (removeNotification e s) = notifications s"
  "container (removeNotification e s) = container s"
  "totalCount (removeNotification e s) = totalCount s"
  "counter (removeNotification e s) = counter s"
  "set (timeouts (removeNotification e s)) \<subseteq> insert e (set (timeouts s))"
  by (auto simp add: removeNotification_def)

lemma showNotification_fails:
  assumes "isl (notificationContent ev)"
  shows "notifications (state_after (showNotification ev n s)) = notifications s"
    and "timeouts (state_after (showNotification ev n s)) = timeouts s"
  using assms by (auto simp add: showNotification_def Let_def split: sum.splits)

lemma showNotification_notifications:
  assumes "\<not> isl (notificationContent ev)"
  shows "notifications (state_after (showNotification ev n s))
         = (if length (notifications s @ [n]) > maxNotifications
            then tl (notifications s @ [n]) else notifications s @ [n])"
  using assms
  by (auto simp add: showNotification_def Let_def updateCounter_fields
        removeNotification_fields split: sum.splits)

lemma showNotification_timeouts:
  assumes "\<not> isl (notificationContent ev)"
  shows "set (timeouts (state_after (showNotification ev n s)))
         \<subseteq> set (timeouts s) \<union>
           (if length (notifications s @ [n]) > maxNotifications
            then {hd (notifications s @ [n])} else {})"
  using assms
  by (auto simp add: showNotification_def Let_def updateCounter_fields
        removeNotification_def split: sum.splits if_splits)

lemma showNotification_most_recent:
  assumes "\<not> isl (notificationContent ev)" and "length (notifications s) \<le> maxNotifications"
  shows "notifications (state_after (showNotification ev n s))
         = most_recent maxNotifications (notifications s @ [n])"
proof (cases "length (notifications s) = maxNotifications")
  case True
  moreover have "Suc 0 - maxNotifications = 0" by (simp add: maxNotifications_def)
  moreover have "notifications s \<noteq> []" using True by (auto simp add: maxNotifications_def)
  ultimately
  have "most_recent maxNotifications (notifications s @ [n]) = tl (notifications s @ [n])"
    by (simp add: most_recent_def drop_Suc)
  with True assms(1) show ?thesis by (simp add: showNotification_notifications)
next
  case False
  with assms(2) have "length (notifications s @ [n]) \<le> maxNotifications" by simp
  then show ?thesis
    using assms(1) by (simp add: showNotification_notifications most_recent_short)
qed

lemma step_settled:
  assumes "push_or_timeout e" and "settled s"
    and "set (pushed [e]) \<inter> (set (notifications s) \<union> set (timeouts s)) = {}"
  shows "settled (manager_step e s)
         \<and> notifications (manager_step e s) = most_recent maxNotifications (notifications s @ pushed [e])
         \<and> set (notifications (manager_step e s)) \<union> set (timeouts (manager_step e s))
             \<subseteq> set (notifications s) \<union> set (timeouts s) \<union> set (pushed [e])"
proof (cases e)
  case (Anomaly ev n)
  show ?thesis
  proof (cases "isl (notificationContent ev)")
    case True
    with Anomaly assms(2) show ?thesis
      by (simp add: showNotification_fails settled_def most_recent_short)
  next
    case False
    let ?s' = "state_after (showNotification ev n s)"
    from assms(2) have len: "length (notifications s) \<le> maxNotifications"
      and dis: "distinct (notifications s)"
      and sep: "set (timeouts s) \<inter> set (notifications s) = {}"
      by (simp_all add: settled_def)
    from Anomaly False assms(3) have fresh: "n \<notin> set (notifications s)" "n \<notin> set (timeouts s)"
      by auto
    have ns: "notifications ?s' = most_recent maxNotifications (notifications s @ [n])"
      using False len by (rule showNotification_most_recent)
    have ts: "set (timeouts ?s') \<subseteq> set (timeouts s) \<union>
           (if length (notifications s @ [n]) > maxNotifications
            then {hd (notifications s @ [n])} else {})"
      using False by (rule showNotification_timeouts)
    have "distinct (notifications s @ [n])" using dis fresh(1) by simp
    then have d': "distinct (notifications ?s')"
      unfolding ns most_recent_def by (rule distinct_drop)
    have l': "length (notifications ?s') \<le> maxNotifications"
      by (simp add: ns most_recent_def)
    have sub: "set (notifications ?s') \<subseteq> insert n (set (notifications s))"
      using set_drop_subset [of "length (notifications s @ [n]) - maxNotifications" "notifications s @ [n]"]
      by (auto simp add: ns most_recent_def)
    have sep': "set (timeouts ?s') \<inter> set (notifications ?s') = {}"
    proof (cases "length (notifications s @ [n]) > maxNotifications")
      case True
      with len have full: "length (notifications s) = maxNotifications" by simp
      then have ne: "notifications s \<noteq> []" by (auto simp add: maxNotifications_def)
      have tl: "notifications ?s' = tl (notifications s) @ [n]"
        using False True ne by (simp add: showNotification_notifications)
      have "hd (notifications s) \<notin> set (tl (notifications s))"
        using dis ne by (cases "notifications s") auto
      moreover have "hd (notifications s) \<noteq> n"
        using fresh(1) ne by (cases "notifications s") auto
      moreover have "set (tl (notifications s)) \<subseteq> set (notifications s)"
        using ne by (cases "notifications s") auto
      ultimately show ?thesis
        using ts True ne sep fresh(2) by (auto simp add: tl)
    next
      case False
      with ts sub sep fresh(2) show ?thesis by auto
    qed
    have t_sub: "set (timeouts ?s') \<subseteq> set (timeouts s) \<union> set (notifications s)"
    proof (cases "notifications s")
      case Nil
      with ts show ?thesis by (auto simp add: maxNotifications_def)
    next
      case (Cons a as)
      with ts show ?thesis by (auto split: if_splits)
    qed
    from d' l' sep' ns sub t_sub Anomaly False show ?thesis
      by (auto simp add: settled_def)
  qed
next
  case (Close n)
  with assms(1) show ?thesis by simp
next
  case ClearAll
  with assms(1) show ?thesis by simp
next
  case (Timeout n)
  show ?thesis
  proof (cases "n \<in> set (timeouts s)")
    case True
    with assms(2) have "n \<notin> set (notifications s)" by (auto simp add: settled_def)
    then have same: "remove1 n (notifications s) = notifications s"
      by (simp add: remove1_idem)
    have "set (remove1 n (timeouts s)) \<subseteq> set (timeouts s)"
      by (rule set_remove1_subset)
    with Timeout True same assms(2) show ?thesis
      by (auto simp add: removalTimeout_def settled_def most_recent_short)
  next
    case False
    with Timeout assms(2) show ?thesis
      by (simp add: removalTimeout_def settled_def most_recent_short)
  qed
qed

lemma pushed_Cons: "pushed (e # evs) = pushed [e] @ pushed evs"
  by (cases e) auto

lemma run_most_recent:
  "list_all push_or_timeout evs \<Longrightarrow> settled s \<Longrightarrow> distinct (pushed evs) \<Longrightarrow>
   set (pushed evs) \<inter> (set (notifications s) \<union> set (timeouts s)) = {} \<Longrightarrow>
   notifications (run_events evs s)
     = most_recent maxNotifications (notifications s @ pushed evs)"
proof (induction evs arbitrary: s)
  case Nil
  then show ?case by (simp add: run_events_def settled_def most_recent_short)
next
  case (Cons e evs)
  have split: "pushed (e # evs) = pushed [e] @ pushed evs" by (rule pushed_Cons)
  from Cons.prems(1) have e: "push_or_timeout e" and rest: "list_all push_or_timeout evs"
    by simp_all
  from Cons.prems(3) split have d1: "distinct (pushed evs)"
    and d2: "set (pushed [e]) \<inter> set (pushed evs) = {}" by auto
  from Cons.prems(4) split
  have f1: "set (pushed [e]) \<inter> (set (notifications s) \<union> set (timeouts s)) = {}"
    and f2: "set (pushed evs) \<inter> (set (notifications s) \<union> set (timeouts s)) = {}" by auto
  note st = step_settled [OF e Cons.prems(2) f1]
  from st have s': "settled (manager_step e s)" by (rule conjunct1)
  from st
  have n': "notifications (manager_step e s) = most_recent maxNotifications (notifications s @ pushed [e])"
    by blast
  from st
  have sub: "set (notifications (manager_step e s)) \<union> set (timeouts (manager_step e s))
             \<subseteq> set (notifications s) \<union> set (timeouts s) \<union> set (pushed [e])"
    by blast
  from sub f2 d2
  have f': "set (pushed evs) \<inter> (set (notifications (manager_step e s)) \<union> set (timeouts (manager_step e s))) = {}"
    by blast
  have "notifications (run_events (e # evs) s) = notifications (run_events evs (manager_step e s))"
    by (simp add: run_events_def)
  also have "\<dots> = most_recent maxNotifications (notifications (manager_step e s) @ pushed evs)"
    using Cons.IH [OF rest s' d1 f'] .
  also have "\<dots> = most_recent maxNotifications ((notifications s @ pushed [e]) @ pushed evs)"
    by (simp only: n' most_recent_append)
  finally show ?case by (simp add: split)
qed

lemma initial_settled: "settled initial_manager"
  by (simp add: settled_def initial_manager_def)

lemma run_initial:
  assumes "list_all push_or_timeout evs" and "distinct (pushed evs)"
  shows "notifications (run_events evs initial_manager)
         = most_recent maxNotifications (pushed evs)"
proof -
  have "set (pushed evs) \<inter>
      (set (notifications (initial_manager :: 'a manager))
       \<union> set (timeouts (initial_manager :: 'a manager))) = {}"
    by (simp add: initial_manager_def)
  from run_most_recent [OF assms(1) initial_settled assms(2) this]
  show ?thesis by (simp add: initial_manager_def)
qed

lemma showNotification_at_capacity:
  assumes "\<not> isl (notificationContent anomalyData)"
    and "length (notifications s) = maxNotifications"
  shows "notifications (state_after (showNotification anomalyData notification s))
         = tl (notifications s) @ [notification]"
proof -
  from assms(2) have "notifications s \<noteq> []" by (auto simp add: maxNotifications_def)
  with assms show ?thesis by (simp add: showNotification_notifications)
qed

text \<open>
  Claim C5. The notification buffer has capacity 10. In a run of anomalies and removal
  callbacks from the empty manager that pushes more than 10 elements (all different, as
  new DOM nodes are), the array holds exactly the 10 elements pushed last, in the order
  in which they were pushed. A push into an array of 10 elements removes exactly one
  element, the oldest. After 11 pushes the array has length 10 and the element pushed
  first is not in it.
\<close>

theorem notifications_keep_last_ten:
  "maxNotifications = 10
   \<and> (list_all push_or_timeout evs \<and> distinct (pushed evs)
        \<and> maxNotifications < length (pushed evs) \<longrightarrow>
        notifications (run_events evs initial_manager)
          = drop (length (pushed evs) - maxNotifications) (pushed evs)
        \<and> length (notifications (run_events evs initial_manager)) = maxNotifications)
   \<and> (\<not> isl (notificationContent anomalyData) \<and> length (notifications s) = maxNotifications
        \<longrightarrow> notifications (state_after (showNotification anomalyData notification s))
              = tl (notifications s) @ [notification])
   \<and> (list_all push_or_timeout evs \<and> distinct (pushed evs) \<and> length (pushed evs) = 11 \<longrightarrow>
        length (notifications (run_events evs initial_manager)) = 10
        \<and> hd (pushed evs) \<notin> set (notifications (run_events evs initial_manager)))"
proof (intro conjI impI)
  show "maxNotifications = 10" by (simp add: maxNotifications_def)
next
  assume a: "list_all push_or_timeout evs \<and> distinct (pushed evs)
        \<and> maxNotifications < length (pushed evs)"
  then show "notifications (run_events evs initial_manager)
          = drop (length (pushed evs) - maxNotifications) (pushed evs)"
    by (simp add: run_initial most_recent_def)
  from a show "length (notifications (run_events evs initial_manager)) = maxNotifications"
    by (simp add: run_initial most_recent_def)
next
  assume "\<not> isl (notificationContent anomalyData) \<and> length (notifications s) = maxNotifications"
  then show "notifications (state_after (showNotification anomalyData notification s))
              = tl (notifications s) @ [notification]"
    by (simp add: showNotification_at_capacity)
next
  assume a: "list_all push_or_timeout evs \<and> distinct (pushed evs) \<and> length (pushed evs) = 11"
  then have ns: "notifications (run_events evs initial_manager) = tl (pushed evs)"
    by (simp add: run_initial most_recent_def maxNotifications_def drop_Suc)
  from a show "length (notifications (run_events evs initial_manager)) = 10"
    by (simp add: ns)
  from a have "pushed evs \<noteq> []" by auto
  with a show "hd (pushed evs) \<notin> set (notifications (run_events evs initial_manager))"
    unfolding ns by (cases "pushed evs") auto
qed

lemma ecg_event_renders: "\<not> isl (notificationContent ecg_event)"
  by (simp add: notificationContent_def ecg_event_def)

lemma pushed_ten: "pushed ten_anomalies = [1, 2, 3, 4, 5, 6, 7, 8, 9, 10]"
  by (simp add: ten_anomalies_def ecg_event_renders)

lemma pushed_eleven: "pushed eleven_anomalies = [1, 2, 3, 4, 5, 6, 7, 8, 9, 10, 11]"
  by (simp add: eleven_anomalies_def ten_anomalies_def ecg_event_renders)

lemma run_ten:
  "notifications (run_events ten_anomalies initial_manager) = [1, 2, 3, 4, 5, 6, 7, 8, 9, 10]"
proof -
  have "list_all push_or_timeout ten_anomalies" by (simp add: ten_anomalies_def)
  moreover have "distinct (pushed ten_anomalies)" by (simp add: pushed_ten)
  ultimately have "notifications (run_events ten_anomalies initial_manager)
      = most_recent maxNotifications (pushed ten_anomalies)" by (rule run_initial)
  then show ?thesis by (simp add: pushed_ten most_recent_def maxNotifications_def)
qed

theorem notifications_keep_last_ten_witness:
  "notifications (run_events eleven_anomalies initial_manager)
     = [2, 3, 4, 5, 6, 7, 8, 9, 10, 11]
   \<and> length (notifications (run_events eleven_anomalies initial_manager)) = 10
   \<and> (1::nat) \<notin> set (notifications (run_events eleven_anomalies initial_manager))
   \<and> notifications (state_after (showNotification ecg_event 11
        (run_events ten_anomalies initial_manager)))
       = [2, 3, 4, 5, 6, 7, 8, 9, 10, 11]"
proof -
  have ev: "list_all push_or_timeout eleven_anomalies"
    by (simp add: eleven_anomalies_def ten_anomalies_def)
  have d: "distinct (pushed eleven_anomalies)" by (simp add: pushed_eleven)
  have l: "maxNotifications < length (pushed eleven_anomalies)"
    by (simp add: pushed_eleven maxNotifications_def)
  have l11: "length (pushed eleven_anomalies) = 11" by (simp add: pushed_eleven)
  have full: "length (notifications (run_events ten_anomalies initial_manager)) = maxNotifications"
    by (simp add: run_ten maxNotifications_def)
  note t = notifications_keep_last_ten
    [of eleven_anomalies ecg_event "run_events ten_anomalies initial_manager" 11]
  from t ev d l have a: "notifications (run_events eleven_anomalies initial_manager)
          = drop (length (pushed eleven_anomalies) - maxNotifications) (pushed eleven_anomalies)"
    by blast
  from t ecg_event_renders full
  have b: "notifications (state_after (showNotification ecg_event 11
        (run_events ten_anomalies initial_manager)))
       = tl (notifications (run_events ten_anomalies initial_manager)) @ [11]"
    by blast
  have a': "notifications (run_events eleven_anomalies initial_manager)
     = [2, 3, 4, 5, 6, 7, 8, 9, 10, 11]"
    unfolding a by (simp add: pushed_eleven maxNotifications_def)
  have b': "notifications (state_after (showNotification ecg_event 11
        (run_events ten_anomalies initial_manager))) = [2, 3, 4, 5, 6, 7, 8, 9, 10, 11]"
    unfolding b by (simp add: run_ten)
  show ?thesis unfolding b' unfolding a' by simp
qed

section \<open>The counter of the notification buffer\<close>

lemma showNotification_counter:
  assumes "\<not> isl (notificationContent anomalyData)"
  shows "counter (state_after (showNotification anomalyData notification s))
         = (let n = length (notifications (state_after (showNotification anomalyData notification s)))
            in Some \<lparr>badge_text = (if n > 99 then NinetyNinePlus else Count n),
                     badge_title = n, displayed = (\<not> n = 0)\<rparr>)"
  using assms
  by (auto simp add: showNotification_def Let_def updateCounter_def
        removeNotification_fields split: sum.splits)

lemma clearAll_counter:
  "notifications (clearAll s) = []
   \<and> counter (clearAll s)
       = (if counter s = None \<and> totalCount s = 0 then None
          else Some \<lparr>badge_text = Count 0, badge_title = 0, displayed = False\<rparr>)"
proof -
  have f: "counter (fold removeNotification xs s) = counter s
           \<and> totalCount (fold removeNotification xs s) = totalCount s" for xs
    by (induction xs arbitrary: s) (simp_all add: removeNotification_fields)
  show ?thesis
    by (auto simp add: clearAll_def updateCounter_def Let_def f)
qed

lemma removal_leaves_counter:
  "counter (removeNotification notification s) = counter s
   \<and> counter (removalTimeout notification s) = counter s"
  by (simp add: removeNotification_def removalTimeout_def)

text \<open>
  Claim C6 asks the counter to show the length of the array after every push, every
  removal of a single notification and every clear. A push and a clear end with
  \<^verbatim>\<open>updateCounter\<close> (the two lemmas above); \<^verbatim>\<open>removeNotification\<close> and its callback do
  not call it. After two anomalies, a click on the close button of the first and the
  run of its callback, the array holds one element and the counter still shows 2.
\<close>

theorem counter_stale_after_close:
  "notifications (run_events close_trace initial_manager) = [2]
   \<and> counter (run_events close_trace initial_manager)
       = Some \<lparr>badge_text = Count 2, badge_title = 2, displayed = True\<rparr>"
  by (simp add: close_trace_def run_events_def showNotification_def Let_def
        initial_manager_def ecg_event_renders updateCounter_def maxNotifications_def
        appendChild_def removeNotification_def removalTimeout_def
        notificationContent_def ecg_event_def)

section \<open>Missing numeric fields\<close>

lemma recognised_renders:
  assumes "event_type anomalyData \<in> {''ecg'', ''piezo'', ''temp''}"
    and "event_data anomalyData = Some d"
  shows "\<not> isl (notificationContent anomalyData)"
  using assms by (auto simp add: notificationContent_def Let_def)

lemma recognised_returns:
  assumes "event_type anomalyData \<in> {''ecg'', ''piezo'', ''temp''}"
    and "event_data anomalyData = Some d"
  shows "\<not> isl (showNotification anomalyData notification s)"
  using recognised_renders [OF assms]
  by (auto simp add: showNotification_def Let_def split: sum.splits)

lemma recognised_shown:
  assumes "event_type anomalyData \<in> {''ecg'', ''piezo'', ''temp''}"
    and "event_data anomalyData = Some d"
  shows "\<not> isl (showNotification anomalyData notification s)"
    and "notifications (state_after (showNotification anomalyData notification s))
         = (if length (notifications s @ [notification]) > maxNotifications
            then tl (notifications s @ [notification]) else notifications s @ [notification])"
    and "container (state_after (showNotification anomalyData notification s))
         = appendChild notification (container s)"
    and "totalCount (state_after (showNotification anomalyData notification s))
         = Suc (totalCount s)"
proof -
  from recognised_renders [OF assms] obtain c where c: "notificationContent anomalyData = Inr c"
    by (cases "notificationContent anomalyData") auto
  show "\<not> isl (showNotification anomalyData notification s)"
    using assms by (rule recognised_returns)
  show "notifications (state_after (showNotification anomalyData notification s))
         = (if length (notifications s @ [notification]) > maxNotifications
            then tl (notifications s @ [notification]) else notifications s @ [notification])"
    using recognised_renders [OF assms] by (rule showNotification_notifications)
  show "container (state_after (showNotification anomalyData notification s))
         = appendChild notification (container s)"
    by (simp add: showNotification_def Let_def c updateCounter_fields removeNotification_fields)
  show "totalCount (state_after (showNotification anomalyData notification s))
         = Suc (totalCount s)"
    by (simp add: showNotification_def Let_def c updateCounter_fields removeNotification_fields)
qed

lemma recognised_last:
  assumes "event_type anomalyData \<in> {''ecg'', ''piezo'', ''temp''}"
    and "event_data anomalyData = Some d"
  shows "last (notifications (state_after (showNotification anomalyData notification s)))
           = notification"
    and "notification \<in> set (container (state_after (showNotification anomalyData notification s)))"
proof -
  show "last (notifications (state_after (showNotification anomalyData notification s)))
           = notification"
  proof (cases "notifications s")
    case Nil
    then show ?thesis
      by (simp add: recognised_shown(2) [OF assms] maxNotifications_def)
  next
    case (Cons a as)
    then show ?thesis by (simp add: recognised_shown(2) [OF assms])
  qed
  show "notification \<in> set (container (state_after (showNotification anomalyData notification s)))"
    by (simp add: recognised_shown(3) [OF assms] appendChild_def)
qed

lemma ecg_piezo_details:
  assumes "event_type anomalyData \<in> {''ecg'', ''piezo''}"
    and "event_data anomalyData = Some d"
  shows "map_sum id (\<lambda>c. map shown (details c)) (notificationContent anomalyData)
         = Inr [ToFixed 4 (or_zero (reconstruction_error d)),
                ToFixed 4 (or_zero (threshold d)),
                LocaleTime (falsy_or (payload_timestamp d) (event_timestamp anomalyData))]"
  using assms
  by (auto simp add: notificationContent_def nullish_def or_zero_def split: option.splits)

lemma temp_details:
  assumes "event_type anomalyData = ''temp''"
    and "event_data anomalyData = Some d"
  shows "map_sum id (\<lambda>c. (message c, map shown (details c))) (notificationContent anomalyData)
         = Inr (MessageTemp (severity d = Some ''severe'')
                  (ToFixedCelsius 1 (or_zero (temperature d))),
                [ToFixedCelsius 1 (or_zero (temperature d)),
                 ToFixedCelsius 1 (or_zero (threshold d)),
                 UpperCase (falsy_or (severity d) ''unknown'')])"
  using assms
  by (auto simp add: notificationContent_def nullish_def or_zero_def Let_def split: option.splits)

lemma card_temp_metrics:
  assumes "anomaly_kind anomaly = ''TEMP''"
  shows "map snd (tl (metrics (createAnomalyCard anomaly)))
         = [Shown (ToFixedCelsius 1 (or_zero (temperature anomaly))),
            Shown (ToFixedCelsius 1 (or_zero (threshold anomaly))),
            Minutes (or_zero (duration_readings anomaly) * 2),
            Translated (falsy_or (severity anomaly) ''unknown'')]"
  using assms
  by (auto simp add: createAnomalyCard_def nullish_def or_zero_def Let_def split: option.splits)

lemma card_signal_metrics:
  assumes "anomaly_kind anomaly \<noteq> ''TEMP''"
  shows "map snd (metrics (createAnomalyCard anomaly))
         = [Shown (ToFixed 4 (or_zero (reconstruction_error anomaly))),
            Shown (ToFixed 4 (or_one (threshold anomaly))),
            Percent (if or_one (threshold anomaly) > 0
                     then Shown (ToFixed 1 (or_zero (reconstruction_error anomaly)
                                   / or_one (threshold anomaly) * 100))
                     else Literal ''0'')]"
  using assms
  by (auto simp add: createAnomalyCard_def nullish_def or_zero_def or_one_def Let_def
        split: option.splits)

text \<open>
  Claim C9, as the code has it. An anomaly of type \<^verbatim>\<open>'ecg'\<close>, \<^verbatim>\<open>'piezo'\<close> or \<^verbatim>\<open>'temp'\<close>
  that carries a payload is rendered whichever of its numeric fields are missing:
  \<^verbatim>\<open>showNotification\<close> returns normally, the new element is a child of the container and
  the last element of the array (after the one eviction when the array was full), and
  \<^verbatim>\<open>totalCount\<close> is one more. The element shows 0 in the place of each missing
  \<^verbatim>\<open>reconstruction_error\<close>, \<^verbatim>\<open>threshold\<close> and \<^verbatim>\<open>temperature\<close>. \<^verbatim>\<open>createAnomalyCard\<close> shows
  0 for a missing \<^verbatim>\<open>temperature\<close>, \<^verbatim>\<open>duration_readings\<close> or \<^verbatim>\<open>reconstruction_error\<close>, and
  for a missing \<^verbatim>\<open>threshold\<close> 0 on a temperature card and 1, the neutral divisor, on the
  other cards.
\<close>

theorem missing_numeric_fields_defaulted:
  "or_zero None = 0 \<and> or_zero (Some x) = x \<and> or_one None = 1 \<and> or_one (Some x) = x
   \<and> (event_type anomalyData \<in> {''ecg'', ''piezo'', ''temp''}
        \<and> event_data anomalyData = Some d \<longrightarrow>
        \<not> isl (showNotification anomalyData notification s)
        \<and> notifications (state_after (showNotification anomalyData notification s))
            = (if length (notifications s @ [notification]) > maxNotifications
               then tl (notifications s @ [notification]) else notifications s @ [notification])
        \<and> last (notifications (state_after (showNotification anomalyData notification s)))
            = notification
        \<and> container (state_after (showNotification anomalyData notification s))
            = appendChild notification (container s)
        \<and> notification \<in> set (container (state_after (showNotification anomalyData notification s)))
        \<and> totalCount (state_after (showNotification anomalyData notification s))
            = Suc (totalCount s))
   \<and> (event_type anomalyData \<in> {''ecg'', ''piezo''} \<and> event_data anomalyData = Some d \<longrightarrow>
        map_sum id (\<lambda>c. map shown (details c)) (notificationContent anomalyData)
          = Inr [ToFixed 4 (or_zero (reconstruction_error d)),
                 ToFixed 4 (or_zero (threshold d)),
                 LocaleTime (falsy_or (payload_timestamp d) (event_timestamp anomalyData))])
   \<and> (event_type anomalyData = ''temp'' \<and> event_data anomalyData = Some d \<longrightarrow>
        map_sum id (\<lambda>c. (message c, map shown (details c))) (notificationContent anomalyData)
          = Inr (MessageTemp (severity d = Some ''severe'')
                   (ToFixedCelsius 1 (or_zero (temperature d))),
                 [ToFixedCelsius 1 (or_zero (temperature d)),
                  ToFixedCelsius 1 (or_zero (threshold d)),
                  UpperCase (falsy_or (severity d) ''unknown'')]))
   \<and> (anomaly_kind anomaly = ''TEMP'' \<longrightarrow>
        map snd (tl (metrics (createAnomalyCard anomaly)))
          = [Shown (ToFixedCelsius 1 (or_zero (temperature anomaly))),
             Shown (ToFixedCelsius 1 (or_zero (threshold anomaly))),
             Minutes (or_zero (duration_readings anomaly) * 2),
             Translated (falsy_or (severity anomaly) ''unknown'')])
   \<and> (anomaly_kind anomaly \<noteq> ''TEMP'' \<longrightarrow>
        map snd (metrics (createAnomalyCard anomaly))
          = [Shown (ToFixed 4 (or_zero (reconstruction_error anomaly))),
             Shown (ToFixed 4 (or_one (threshold anomaly))),
             Percent (if or_one (threshold anomaly) > 0
                      then Shown (ToFixed 1 (or_zero (reconstruction_error anomaly)
                                    / or_one (threshold anomaly) * 100))
                      else Literal ''0'')])"
proof -
  have shown: "event_type anomalyData \<in> {''ecg'', ''piezo'', ''temp''}
        \<and> event_data anomalyData = Some d \<longrightarrow>
        \<not> isl (showNotification anomalyData notification s)
        \<and> notifications (state_after (showNotification anomalyData notification s))
            = (if length (notifications s @ [notification]) > maxNotifications
               then tl (notifications s @ [notification]) else notifications s @ [notification])
        \<and> last (notifications (state_after (showNotification anomalyData notification s)))
            = notification
        \<and> container (state_after (showNotification anomalyData notification s))
            = appendChild notification (container s)
        \<and> notification \<in> set (container (state_after (showNotification anomalyData notification s)))
        \<and> totalCount (state_after (showNotification anomalyData notification s))
            = Suc (totalCount s)"
    using recognised_shown [of anomalyData d notification s]
      recognised_last [of anomalyData d notification s]
    by blast
  have defaults: "or_zero None = 0 \<and> or_zero (Some x) = x \<and> or_one None = 1 \<and> or_one (Some x) = x"
    by (simp add: or_zero_def or_one_def)
  from shown defaults ecg_piezo_details [of anomalyData d] temp_details [of anomalyData d]
    card_temp_metrics [of anomaly] card_signal_metrics [of anomaly]
  show ?thesis by blast
qed

text \<open>
  Claim C9 as stated fails: for an event of a type other than the three, with a payload
  that lacks every numeric field, no branch assigns \<^verbatim>\<open>details\<close> and the template throws
  a \<^verbatim>\<open>TypeError\<close>; for an event without payload the first read of a field throws. In
  both cases \<^verbatim>\<open>totalCount\<close> has been incremented and nothing is shown.
\<close>

theorem missing_numeric_fields_counterexample:
  "event_data unknown_event
     = Some \<lparr>reconstruction_error = None, threshold = None, temperature = None,
             severity = None, anomaly_type = None, payload_timestamp = None\<rparr>
   \<and> showNotification unknown_event (1::nat) initial_manager
       = Inl (TypeError, initial_manager\<lparr>totalCount := 1\<rparr>)
   \<and> showNotification bare_event (1::nat) initial_manager
       = Inl (TypeError, initial_manager\<lparr>totalCount := 1\<rparr>)"
  by (simp add: unknown_event_def bare_event_def showNotification_def
        notificationContent_def Let_def initial_manager_def)

theorem missing_numeric_fields_defaulted_witness:
  "\<not> isl (showNotification ecg_event (1::nat) initial_manager)
   \<and> notifications (state_after (showNotification ecg_event (1::nat) initial_manager)) = [1]
   \<and> container (state_after (showNotification ecg_event (1::nat) initial_manager)) = [1]
   \<and> totalCount (state_after (showNotification ecg_event (1::nat) initial_manager)) = 1
   \<and> \<not> isl (showNotification temp_event (1::nat) initial_manager)
   \<and> notifications (state_after (showNotification temp_event (1::nat) initial_manager)) = [1]
   \<and> map_sum id (\<lambda>c. map shown (details c)) (notificationContent ecg_event)
       = Inr [ToFixed 4 0, ToFixed 4 0, LocaleTime ''2025-01-01T10:00:00'']
   \<and> map_sum id (\<lambda>c. (message c, map shown (details c))) (notificationContent temp_event)
       = Inr (MessageTemp True (ToFixedCelsius 1 0),
              [ToFixedCelsius 1 0, ToFixedCelsius 1 0, UpperCase ''severe''])
   \<and> map snd (tl (metrics (createAnomalyCard (bare_record ''TEMP''))))
       = [Shown (ToFixedCelsius 1 0), Shown (ToFixedCelsius 1 0), Minutes 0,
          Translated ''unknown'']
   \<and> map snd (metrics (createAnomalyCard (bare_record ''ECG'')))
       = [Shown (ToFixed 4 0), Shown (ToFixed 4 1), Percent (Shown (ToFixed 1 0))]"
proof -
  let ?d = "\<lparr>reconstruction_error = None, threshold = None, temperature = None,
       severity = None, anomaly_type = None, payload_timestamp = None\<rparr>"
  let ?t = "\<lparr>reconstruction_error = None, threshold = None, temperature = None,
       severity = Some ''severe'', anomaly_type = Some ''hypothermia'',
       payload_timestamp = None\<rparr>"
  have e: "event_type ecg_event = ''ecg''" "event_data ecg_event = Some ?d"
    "event_timestamp ecg_event = ''2025-01-01T10:00:00''"
    by (simp_all add: ecg_event_def)
  have t: "event_type temp_event = ''temp''" "event_data temp_event = Some ?t"
    by (simp_all add: temp_event_def)
  have k: "anomaly_kind (bare_record ''TEMP'') = ''TEMP''"
    "anomaly_kind (bare_record ''ECG'') \<noteq> ''TEMP''"
    "temperature (bare_record kind) = None" "threshold (bare_record kind) = None"
    "duration_readings (bare_record kind) = None" "severity (bare_record kind) = None"
    "reconstruction_error (bare_record kind) = None" for kind
    by (simp_all add: bare_record_def)
  have i: "notifications (initial_manager :: nat manager) = []"
    "container (initial_manager :: nat manager) = []"
    "totalCount (initial_manager :: nat manager) = 0"
    by (simp_all add: initial_manager_def)
  have m: "\<not> maxNotifications < Suc 0" by (simp add: maxNotifications_def)
  from missing_numeric_fields_defaulted
    [of 0 ecg_event ?d "1::nat" initial_manager "bare_record ''TEMP''"] e k i m
  have a: "\<not> isl (showNotification ecg_event (1::nat) initial_manager)"
    and a1: "notifications (state_after (showNotification ecg_event (1::nat) initial_manager)) = [1]"
    and a2: "container (state_after (showNotification ecg_event (1::nat) initial_manager)) = [1]"
    and a3: "totalCount (state_after (showNotification ecg_event (1::nat) initial_manager)) = 1"
    and b: "map_sum id (\<lambda>c. map shown (details c)) (notificationContent ecg_event)
       = Inr [ToFixed 4 0, ToFixed 4 0, LocaleTime ''2025-01-01T10:00:00'']"
    and c: "map snd (tl (metrics (createAnomalyCard (bare_record ''TEMP''))))
       = [Shown (ToFixedCelsius 1 0), Shown (ToFixedCelsius 1 0), Minutes 0,
          Translated ''unknown'']"
    by (simp_all add: falsy_or_def appendChild_def)
  from missing_numeric_fields_defaulted
    [of 0 temp_event ?t "1::nat" initial_manager "bare_record ''ECG''"] t k i m
  have a': "\<not> isl (showNotification temp_event (1::nat) initial_manager)"
    and a1': "notifications (state_after (showNotification temp_event (1::nat) initial_manager)) = [1]"
    and b': "map_sum id (\<lambda>c. (message c, map shown (details c))) (notificationContent temp_event)
       = Inr (MessageTemp True (ToFixedCelsius 1 0),
              [ToFixedCelsius 1 0, ToFixedCelsius 1 0, UpperCase ''severe''])"
    and c': "map snd (metrics (createAnomalyCard (bare_record ''ECG'')))
       = [Shown (ToFixed 4 0), Shown (ToFixed 4 1), Percent (Shown (ToFixed 1 0))]"
    by (simp_all add: falsy_or_def appendChild_def)
  from a a1 a2 a3 a' a1' b b' c c' show ?thesis by blast
qed

section \<open>The temperature history\<close>

lemma slice_from_end_length: "length (slice_from_end n xs) \<le> n"
  by (simp add: slice_from_end_def)

lemma pushTemperature_history:
  "hist_values (temperatureHistory (pushTemperature v s)) = hist_values (temperatureHistory s) @ [v]"
  "hist_times (temperatureHistory (pushTemperature v s))
     = hist_times (temperatureHistory s) @ [2 * int (length (hist_values (temperatureHistory s)))]"
  by (simp_all add: pushTemperature_def Let_def)

lemma pushTemperature_sync: "chart_in_sync (pushTemperature v s)"
  by (simp add: chart_in_sync_def pushTemperature_def Let_def)

lemma updateChart_sync: "chart_in_sync s \<Longrightarrow> chart_in_sync (updateChart signal data s)"
  using pushTemperature_sync
  by (auto simp add: updateChart_def chart_in_sync_def Let_def split: option.splits list.splits)

lemma updateStatistics_sync: "chart_in_sync s \<Longrightarrow> chart_in_sync (updateStatistics data s)"
proof -
  assume a: "chart_in_sync s"
  have p: "chart_in_sync (pushTemperature v (s\<lparr>tempValue := t, frozenStats := f, lastTemperature := l\<rparr>))"
    for v t f l by (rule pushTemperature_sync)
  from a p show ?thesis
    by (auto simp add: updateStatistics_def chart_in_sync_def Let_def split: option.splits)
qed

lemma realtime_step_sync: "chart_in_sync s \<Longrightarrow> chart_in_sync (realtime_step e s)"
proof (cases e)
  case (DataUpdate signal data)
  assume "chart_in_sync s"
  with DataUpdate show ?thesis by (simp add: updateChart_sync)
next
  case (StatusUpdate data)
  assume "chart_in_sync s"
  with StatusUpdate show ?thesis by (simp add: updateStatistics_sync)
next
  case (AcquisitionStatus b)
  assume "chart_in_sync s"
  with AcquisitionStatus show ?thesis by (simp add: chart_in_sync_def)
next
  case (Poll data b)
  assume "chart_in_sync s"
  then have "chart_in_sync (updateStatistics data s)" by (rule updateStatistics_sync)
  with Poll show ?thesis by (simp add: chart_in_sync_def)
next
  case Reset
  then show ?thesis by (simp add: chart_in_sync_def performReset_def slice_from_end_def)
qed

lemma run_realtime_sync: "chart_in_sync s \<Longrightarrow> chart_in_sync (run_realtime evs s)"
  unfolding run_realtime_def
  by (induction evs arbitrary: s) (simp_all add: realtime_step_sync)

lemma temp_sample_appends:
  "hist_values (temperatureHistory (realtime_step temp_sample s))
     = hist_values (temperatureHistory s) @ [Num (73 / 2)]"
  by (simp add: temp_sample_def updateChart_def firstRawValue_def divide100_def
        pushTemperature_def Let_def)

lemma temp_samples_length:
  "length (hist_values (temperatureHistory (run_realtime (replicate n temp_sample) s)))
     = length (hist_values (temperatureHistory s)) + n"
  unfolding run_realtime_def
  by (induction n arbitrary: s) (simp_all add: temp_sample_appends)

lemma initial_sync: "chart_in_sync initial_realtime"
  by (simp add: chart_in_sync_def initial_realtime_def slice_from_end_def)

text \<open>
  Claim C7, as the code has it. The bound of 1200 is on what is displayed: after any
  run of events the series handed to the temperature chart are the last 1200 entries
  of the stored values and times, so at most 1200 long. The stored history has no
  bound: a push appends one value and one time and removes nothing.
\<close>

theorem temperature_display_bounded:
  "MAX_TEMP_DISPLAY = 1200
   \<and> (chart_in_sync s \<longrightarrow>
        chart_in_sync (run_realtime evs s)
        \<and> length (fst (tempChart (run_realtime evs s))) \<le> MAX_TEMP_DISPLAY
        \<and> length (snd (tempChart (run_realtime evs s))) \<le> MAX_TEMP_DISPLAY)
   \<and> hist_values (temperatureHistory (pushTemperature v s))
       = hist_values (temperatureHistory s) @ [v]
   \<and> hist_times (temperatureHistory (pushTemperature v s))
       = hist_times (temperatureHistory s) @ [2 * int (length (hist_values (temperatureHistory s)))]"
proof (intro conjI impI)
  show "MAX_TEMP_DISPLAY = 1200" by (simp add: MAX_TEMP_DISPLAY_def)
next
  assume "chart_in_sync s"
  then show sync: "chart_in_sync (run_realtime evs s)" by (rule run_realtime_sync)
  then show "length (fst (tempChart (run_realtime evs s))) \<le> MAX_TEMP_DISPLAY"
    by (simp add: chart_in_sync_def slice_from_end_length)
  from sync show "length (snd (tempChart (run_realtime evs s))) \<le> MAX_TEMP_DISPLAY"
    by (simp add: chart_in_sync_def slice_from_end_length)
qed (simp_all add: pushTemperature_history)

lemma temp_sample_times:
  "length (hist_times (temperatureHistory (realtime_step temp_sample s)))
     = Suc (length (hist_times (temperatureHistory s)))"
  by (simp add: temp_sample_def updateChart_def firstRawValue_def divide100_def
        pushTemperature_def Let_def)

lemma temp_samples_times_length:
  "length (hist_times (temperatureHistory (run_realtime (replicate n temp_sample) s)))
     = length (hist_times (temperatureHistory s)) + n"
  unfolding run_realtime_def
  by (induction n arbitrary: s) (simp_all add: temp_sample_times)

text \<open>
  Claim C7 as stated fails: after 1201 temperature messages the stored values and
  times are 1201 long.
\<close>

theorem temperature_history_counterexample:
  "length (hist_values (temperatureHistory
      (run_realtime (replicate 1201 temp_sample) initial_realtime))) = 1201
   \<and> length (hist_times (temperatureHistory
      (run_realtime (replicate 1201 temp_sample) initial_realtime))) = 1201
   \<and> MAX_TEMP_DISPLAY < 1201"
  by (simp add: temp_samples_length temp_samples_times_length initial_realtime_def
        MAX_TEMP_DISPLAY_def)

theorem temperature_display_bounded_witness:
  "length (fst (tempChart (run_realtime [temp_sample, temp_sample, Reset, temp_sample]
      initial_realtime))) \<le> 1200
   \<and> length (snd (tempChart (run_realtime [temp_sample, temp_sample, Reset, temp_sample]
      initial_realtime))) \<le> 1200"
  using temperature_display_bounded
    [of initial_realtime "[temp_sample, temp_sample, Reset, temp_sample]"] initial_sync
  by simp

text \<open>
  Claim C10. When \<^verbatim>\<open>shouldUpdateCounters\<close> is false, \<^verbatim>\<open>updateStatistics\<close> returns at once:
  the whole state, and so \<^verbatim>\<open>frozenStats\<close>, \<^verbatim>\<open>temperatureHistory\<close>, \<^verbatim>\<open>lastTemperature\<close>
  and the temperature shown, is what it was.
\<close>

theorem updateStatistics_frozen:
  "\<not> shouldUpdateCounters s \<longrightarrow>
     updateStatistics data s = s
     \<and> frozenStats (updateStatistics data s) = frozenStats s
     \<and> temperatureHistory (updateStatistics data s) = temperatureHistory s
     \<and> lastTemperature (updateStatistics data s) = lastTemperature s
     \<and> tempValue (updateStatistics data s) = tempValue s"
  by (simp add: updateStatistics_def)

theorem updateStatistics_frozen_witness:
  "updateStatistics warm_snapshot initial_realtime = initial_realtime
   \<and> updateStatistics warm_snapshot (initial_realtime\<lparr>shouldUpdateCounters := True\<rparr>)
       \<noteq> initial_realtime\<lparr>shouldUpdateCounters := True\<rparr>"
proof -
  have "\<not> shouldUpdateCounters initial_realtime" by (simp add: initial_realtime_def)
  with updateStatistics_frozen [of initial_realtime warm_snapshot]
  have "updateStatistics warm_snapshot initial_realtime = initial_realtime" by blast
  moreover have "lastTemperature (updateStatistics warm_snapshot
      (initial_realtime\<lparr>shouldUpdateCounters := True\<rparr>)) = Some 37"
    by (simp add: updateStatistics_def warm_snapshot_def initial_realtime_def Let_def
          pushTemperature_def)
  moreover have "lastTemperature (initial_realtime\<lparr>shouldUpdateCounters := True\<rparr>) = None"
    by (simp add: initial_realtime_def)
  ultimately show ?thesis by (metis option.distinct(1))
qed

section \<open>Proportional time bounds\<close>

text \<open>
  Claim C8. In the proportional mode, used for the temperature signal, with a positive
  total count, the window starts at
  \<open>originTimestamp + (position / totalCount) * totalSessionDuration\<close> and ends at
  \<open>originTimestamp + (position / totalCount + windowLength / totalCount) * totalSessionDuration\<close>,
  where the duration is the end of the session minus its start. At position 0 with a
  window as long as the dataset the bounds are the start of the session and the start
  plus the duration.
\<close>

theorem proportional_window_bounds:
  "(0 < totalDataCount s \<longrightarrow>
      windowTimeBounds ''TEMP'' s windowLength originTimestamp sessionEndMs
        = Some (originTimestamp
                  + (of_int (currentPosition s) / of_int (totalDataCount s))
                    * (sessionEndMs - originTimestamp),
                originTimestamp
                  + ((of_int (currentPosition s) / of_int (totalDataCount s))
                     + (of_nat windowLength / of_int (totalDataCount s)))
                    * (sessionEndMs - originTimestamp)))
   \<and> (0 < totalDataCount s \<and> currentPosition s = 0 \<and> int windowLength = totalDataCount s \<longrightarrow>
        windowTimeBounds ''TEMP'' s windowLength originTimestamp sessionEndMs
          = Some (originTimestamp, originTimestamp + (sessionEndMs - originTimestamp)))"
proof (intro conjI impI)
  assume "0 < totalDataCount s"
  then show "windowTimeBounds ''TEMP'' s windowLength originTimestamp sessionEndMs
        = Some (originTimestamp
                  + (of_int (currentPosition s) / of_int (totalDataCount s))
                    * (sessionEndMs - originTimestamp),
                originTimestamp
                  + ((of_int (currentPosition s) / of_int (totalDataCount s))
                     + (of_nat windowLength / of_int (totalDataCount s)))
                    * (sessionEndMs - originTimestamp))"
    by (simp add: windowTimeBounds_def Let_def mult.commute)
next
  assume a: "0 < totalDataCount s \<and> currentPosition s = 0 \<and> int windowLength = totalDataCount s"
  then have eq: "(of_nat windowLength :: rat) = of_int (totalDataCount s)"
    by (metis of_int_of_nat_eq)
  from a have nz: "totalDataCount s \<noteq> 0" and p: "currentPosition s = 0" by simp_all
  from nz p show "windowTimeBounds ''TEMP'' s windowLength originTimestamp sessionEndMs
          = Some (originTimestamp, originTimestamp + (sessionEndMs - originTimestamp))"
    by (simp add: windowTimeBounds_def Let_def eq)
qed

theorem proportional_window_bounds_witness:
  "windowTimeBounds ''TEMP'' (sample_cursor\<lparr>currentPosition := 2500\<rparr>) 1000 1000 61000
     = Some (16000, 22000)
   \<and> windowTimeBounds ''TEMP'' (sample_cursor\<lparr>currentWindowSize := 10000\<rparr>) 10000 1000 61000
     = Some (1000, 61000)"
proof -
  have "0 < totalDataCount (sample_cursor\<lparr>currentPosition := 2500\<rparr>)"
    by (simp add: sample_cursor_def)
  with proportional_window_bounds [of "sample_cursor\<lparr>currentPosition := 2500\<rparr>" 1000 1000 61000]
  have a: "windowTimeBounds ''TEMP'' (sample_cursor\<lparr>currentPosition := 2500\<rparr>) 1000 1000 61000
     = Some (16000, 22000)"
    by (simp add: sample_cursor_def)
  have "0 < totalDataCount (sample_cursor\<lparr>currentWindowSize := 10000\<rparr>)
      \<and> currentPosition (sample_cursor\<lparr>currentWindowSize := 10000\<rparr>) = 0
      \<and> int 10000 = totalDataCount (sample_cursor\<lparr>currentWindowSize := 10000\<rparr>)"
    by (simp add: sample_cursor_def)
  with proportional_window_bounds [of "sample_cursor\<lparr>currentWindowSize := 10000\<rparr>" 10000 1000 61000]
  have b: "windowTimeBounds ''TEMP'' (sample_cursor\<lparr>currentWindowSize := 10000\<rparr>) 10000 1000 61000
     = Some (1000, 61000)"
    by simp
  from a b show ?thesis by simp
qed

end
